theory Spec2Isabelle
  imports Complex_Main
begin

section \<open>Conventions of the embedding\<close>

text \<open>
  The development embeds the particle engine and the clip-plane computations of
  \<^verbatim>\<open>src/fluids_app.cpp\<close> (\<^verbatim>\<open>FluidMechanics::Impl\<close>).

  \<^item> C++ \<^verbatim>\<open>float\<close> values are read as real numbers: rounding, infinities and NaN are not
    represented, and a quotient by zero is 0 as everywhere in HOL. The rounding of single
    precision is written out only in \<open>posToDataCoords32\<close> and \<open>dataCoordsToPos32\<close>, the
    two coordinate transforms as they run on \<^verbatim>\<open>float\<close> values. C++ \<^verbatim>\<open>int\<close> values are
    read as integers, on the assumption that no signed overflow (undefined behaviour in
    C++) occurs; the conversion of the elapsed time from \<^verbatim>\<open>long\<close> to \<^verbatim>\<open>int\<close> is written
    out.
  \<^item> The classes \<^verbatim>\<open>Matrix4\<close>, \<^verbatim>\<open>Matrix3\<close>, \<^verbatim>\<open>Quaternion\<close> and \<^verbatim>\<open>Slice\<close> are declared in
    headers that are not part of the sources. A matrix is a value of a type parameter
    \<open>'m\<close>, and the operations the code calls on it are the fields of the record
    \<open>'m Ext\<close>; a quaternion is the expression that builds it.
  \<^item> Every function takes the \<^verbatim>\<open>Impl\<close> object and returns the updated one. A C++
    exception that leaves a function, and a dereference of a null pointer, are results
    of the datatype \<open>failure\<close>.
  \<^item> The \<^verbatim>\<open>synchronized\<close> sections and the log output are not represented: each function
    is read as running alone on the object.
  \<^item> The system clock and \<^verbatim>\<open>std::rand\<close> are inputs: \<open>now\<close> is the value that
    \<^verbatim>\<open>clock_gettime\<close> stores, \<open>jit i\<close> is the jitter drawn for the particle at index \<open>i\<close>.
\<close>

section \<open>Data model\<close>

datatype Vector3 = Vector3 (x: real) (y: real) (z: real)

definition vadd :: "Vector3 \<Rightarrow> Vector3 \<Rightarrow> Vector3" where
  "vadd a b = Vector3 (x a + x b) (y a + y b) (z a + z b)"

definition vsub :: "Vector3 \<Rightarrow> Vector3 \<Rightarrow> Vector3" where
  "vsub a b = Vector3 (x a - x b) (y a - y b) (z a - z b)"

definition vneg :: "Vector3 \<Rightarrow> Vector3" where
  "vneg a = Vector3 (- x a) (- y a) (- z a)"

text \<open>\<^verbatim>\<open>Vector3 * float\<close>.\<close>

definition vscale :: "Vector3 \<Rightarrow> real \<Rightarrow> Vector3" where
  "vscale a k = Vector3 (x a * k) (y a * k) (z a * k)"

text \<open>\<^verbatim>\<open>Vector3 * Vector3\<close>, component by component.\<close>

definition vmul :: "Vector3 \<Rightarrow> Vector3 \<Rightarrow> Vector3" where
  "vmul a b = Vector3 (x a * x b) (y a * y b) (z a * z b)"

definition vdot :: "Vector3 \<Rightarrow> Vector3 \<Rightarrow> real" where
  "vdot a b = x a * x b + y a * y b + z a * z b"

definition vlength :: "Vector3 \<Rightarrow> real" where
  "vlength a = sqrt (vdot a a)"

definition normalized :: "Vector3 \<Rightarrow> Vector3" where
  "normalized a = vscale a (1 / vlength a)"

definition unitX :: Vector3 where "unitX = Vector3 1 0 0"
definition unitY :: Vector3 where "unitY = Vector3 0 1 0"
definition unitZ :: Vector3 where "unitZ = Vector3 0 0 1"
definition vzero :: Vector3 where "vzero = Vector3 0 0 0"

text \<open>Division of C++ integers truncates towards zero.\<close>

definition cdiv :: "int \<Rightarrow> int \<Rightarrow> int" where
  "cdiv a b = (if (a < 0) = (b < 0) then \<bar>a\<bar> div \<bar>b\<bar> else - (\<bar>a\<bar> div \<bar>b\<bar>))"

text \<open>The conversion of a \<^verbatim>\<open>float\<close> to an \<^verbatim>\<open>int\<close> drops the fractional part.\<close>

definition truncf :: "real \<Rightarrow> int" where
  "truncf r = (if r < 0 then - \<lfloor>- r\<rfloor> else \<lfloor>r\<rfloor>)"

record timespec =
  tv_sec :: int
  tv_nsec :: int

record Particle =
  pos :: Vector3
  valid :: bool
  delayMs :: int
  stallMs :: int
  lastTime :: timespec

datatype ClipAxis =
  CLIP_NONE
  | CLIP_AXIS_X | CLIP_AXIS_Y | CLIP_AXIS_Z
  | CLIP_NEG_AXIS_X | CLIP_NEG_AXIS_Y | CLIP_NEG_AXIS_Z

text \<open>
  A quaternion is kept as the expression that builds it: \<^verbatim>\<open>Quaternion::identity()\<close>,
  \<^verbatim>\<open>Quaternion(axis, angle)\<close> and the product of two quaternions.
\<close>

datatype Quaternion =
  QIdentity
  | QAxisAngle Vector3 real
  | QMul Quaternion Quaternion

datatype failure = Exception | NullDereference | AssertionFailed

text \<open>
  The operations of the absent classes. \<open>m4_inverse\<close> is \<^verbatim>\<open>Matrix4::inverse()\<close>, with
  \<open>None\<close> where it throws (the code expects it to, for a matrix that is not invertible:
  see the \<^verbatim>\<open>FIXME\<close> and the \<^verbatim>\<open>try\<close> block of \<^verbatim>\<open>computeStylusClipPlane\<close>).
  \<open>m4_of3x3 m\<close> is \<^verbatim>\<open>Matrix4(m.get3x3Matrix())\<close>, \<open>m3_apply m v\<close> is
  \<^verbatim>\<open>m.get3x3Matrix() * v\<close>, \<open>m4_makeTransform\<close> is \<^verbatim>\<open>Matrix4::makeTransform\<close> with
  \<open>None\<close> for an argument left to its default,
  \<open>m4_get m i j\<close> reads \<^verbatim>\<open>m[i][j]\<close> and \<open>m4_set m i j v\<close> writes it.
  \<open>projectOnPlane v n\<close> is \<^verbatim>\<open>v.projectOnPlane(n)\<close>. \<open>slice_isEmpty\<close> is
  \<^verbatim>\<open>Slice::isEmpty()\<close>, a function of the arguments of the last \<^verbatim>\<open>setSlice\<close>.
\<close>

record 'm Ext =
  m4_inverse :: "'m \<Rightarrow> 'm option"
  m4_mul :: "'m \<Rightarrow> 'm \<Rightarrow> 'm"
  m4_apply :: "'m \<Rightarrow> Vector3 \<Rightarrow> Vector3"
  m4_transpose :: "'m \<Rightarrow> 'm"
  m4_of3x3 :: "'m \<Rightarrow> 'm"
  m3_apply :: "'m \<Rightarrow> Vector3 \<Rightarrow> Vector3"
  m4_setPosition :: "'m \<Rightarrow> Vector3 \<Rightarrow> 'm"
  m4_makeTransform :: "Vector3 \<Rightarrow> Quaternion option \<Rightarrow> Vector3 option \<Rightarrow> 'm"
  m4_get :: "'m \<Rightarrow> nat \<Rightarrow> nat \<Rightarrow> real"
  m4_set :: "'m \<Rightarrow> nat \<Rightarrow> nat \<Rightarrow> real \<Rightarrow> 'm"
  projectOnPlane :: "Vector3 \<Rightarrow> Vector3 \<Rightarrow> Vector3"
  slice_isEmpty :: "'m \<times> real \<times> real \<Rightarrow> bool"

text \<open>
  The fields of \<^verbatim>\<open>FluidMechanics::Impl\<close>, of its \<^verbatim>\<open>state\<close> and \<^verbatim>\<open>settings\<close> and of the
  application object that the modelled functions read or write. \<open>velocityData\<close> is
  \<open>None\<close> for the null pointer and otherwise the vector array read by
  \<^verbatim>\<open>GetTuple3\<close>. \<open>slice\<close> holds the arguments of the last \<^verbatim>\<open>setSlice\<close> call
  (\<open>None\<close> before the first). \<open>slicePoint\<close> and \<open>sliceNormal\<close> are the members that
  \<^verbatim>\<open>updateSlicePlanes\<close> passes by reference as \<^verbatim>\<open>point\<close> and \<^verbatim>\<open>normal\<close>.
\<close>

record 'm Impl =
  tangibleVisible :: bool
  stylusVisible :: bool
  modelMatrix :: 'm
  stylusModelMatrix :: 'm
  sliceModelMatrix :: 'm
  clipAxis :: ClipAxis
  lockedClipAxis :: ClipAxis
  zoomFactor :: real
  clipDist :: real
  projMatrix :: 'm
  getDepthValue :: "real \<Rightarrow> real"
  dataDim :: "nat \<Rightarrow> int"
  dataSpacing :: Vector3
  velocityData :: "(int \<Rightarrow> real \<times> real \<times> real) option"
  particles :: "Particle list"
  particleStartTime :: timespec
  slice :: "('m \<times> real \<times> real) option"
  slicePoint :: Vector3
  sliceNormal :: Vector3
  seedPoint :: Vector3

definition particleSpeed :: real where
  "particleSpeed = 15 / 100"

definition particleReleaseDuration :: int where
  "particleReleaseDuration = 700"

definition particleStallDuration :: int where
  "particleStallDuration = 1000"

section \<open>Coordinate transforms\<close>

text \<open>\<^verbatim>\<open>Vector3(dataDim[0]/2, dataDim[1]/2, dataDim[2]/2) * dataSpacing\<close>\<close>

definition halfExtent :: "'m Impl \<Rightarrow> Vector3" where
  "halfExtent s =
     vmul (Vector3 (real_of_int (cdiv (dataDim s 0) 2))
                   (real_of_int (cdiv (dataDim s 1) 2))
                   (real_of_int (cdiv (dataDim s 2) 2)))
          (dataSpacing s)"

definition posToDataCoords :: "'m Ext \<Rightarrow> 'm Impl \<Rightarrow> Vector3 \<Rightarrow> Vector3 option" where
  "posToDataCoords E s p =
     (case m4_inverse E (modelMatrix s) of
        None \<Rightarrow> None
      | Some mi \<Rightarrow>
          Some (vadd (vscale (m4_apply E mi p) (1 / zoomFactor s)) (halfExtent s)))"

definition dataCoordsToPos :: "'m Ext \<Rightarrow> 'm Impl \<Rightarrow> Vector3 \<Rightarrow> Vector3" where
  "dataCoordsToPos E s dataCoords =
     m4_apply E (modelMatrix s) (vscale (vsub dataCoords (halfExtent s)) (zoomFactor s))"

subsection \<open>The transforms in single precision\<close>

text \<open>
  \<open>binexp n r\<close> is the binary exponent of \<open>r > 0\<close>, the \<open>e\<close> with \<open>2\<^sup>e \<le> r < 2\<^sup>e\<^sup>+\<^sup>1\<close>, found
  in at most \<open>n\<close> halvings or doublings; \<open>pow2 e\<close> is \<open>2\<^sup>e\<close>; \<open>roundEven\<close> rounds to the
  nearest integer, a tie to the even one.
\<close>

fun binexp :: "nat \<Rightarrow> real \<Rightarrow> int" where
  "binexp 0 r = 0"
| "binexp (Suc n) r =
     (if 2 \<le> r then binexp n (r / 2) + 1
      else if r < 1 then binexp n (2 * r) - 1
      else 0)"

definition pow2 :: "int \<Rightarrow> real" where
  "pow2 e = (if 0 \<le> e then 2 ^ nat e else 1 / 2 ^ nat (- e))"

definition roundEven :: "real \<Rightarrow> int" where
  "roundEven r =
     (let f = \<lfloor>r\<rfloor>; d = r - real_of_int f
      in if d < 1 / 2 then f
         else if 1 / 2 < d then f + 1
         else if even f then f else f + 1)"

text \<open>
  The value of a real number in single precision: the nearest multiple of the unit in
  the last place, which is \<open>2\<^sup>e\<^sup>-\<^sup>2\<^sup>3\<close> for the exponent \<open>e\<close> of the number and \<open>2\<^sup>-\<^sup>1\<^sup>4\<^sup>9\<close> for
  the subnormal numbers. Every \<^verbatim>\<open>float\<close> operation of IEEE 754 returns the exact result
  rounded in this way. The overflow to infinity is not represented.
\<close>

definition fl32 :: "real \<Rightarrow> real" where
  "fl32 r =
     (if r = 0 then 0
      else
        let e = max (binexp 300 \<bar>r\<bar>) (- 126);
            u = pow2 (e - 23)
        in real_of_int (roundEven (r / u)) * u)"

definition vadd32 :: "Vector3 \<Rightarrow> Vector3 \<Rightarrow> Vector3" where
  "vadd32 a b = Vector3 (fl32 (x a + x b)) (fl32 (y a + y b)) (fl32 (z a + z b))"

definition vsub32 :: "Vector3 \<Rightarrow> Vector3 \<Rightarrow> Vector3" where
  "vsub32 a b = Vector3 (fl32 (x a - x b)) (fl32 (y a - y b)) (fl32 (z a - z b))"

definition vscale32 :: "Vector3 \<Rightarrow> real \<Rightarrow> Vector3" where
  "vscale32 a k = Vector3 (fl32 (x a * k)) (fl32 (y a * k)) (fl32 (z a * k))"

definition vmul32 :: "Vector3 \<Rightarrow> Vector3 \<Rightarrow> Vector3" where
  "vmul32 a b = Vector3 (fl32 (x a * x b)) (fl32 (y a * y b)) (fl32 (z a * z b))"

text \<open>
  \<^verbatim>\<open>posToDataCoords\<close> and \<^verbatim>\<open>dataCoordsToPos\<close> with every \<^verbatim>\<open>float\<close> operation of their
  bodies rounded: the conversion of the halved dimensions, the products with the
  spacing, the quotient \<^verbatim>\<open>1/settings->zoomFactor\<close>, the scaling, and the sum and
  difference with the half extent. The operations of \<^verbatim>\<open>Matrix4\<close> remain those of \<open>E\<close>.
\<close>

definition halfExtent32 :: "'m Impl \<Rightarrow> Vector3" where
  "halfExtent32 s =
     vmul32 (Vector3 (fl32 (real_of_int (cdiv (dataDim s 0) 2)))
                     (fl32 (real_of_int (cdiv (dataDim s 1) 2)))
                     (fl32 (real_of_int (cdiv (dataDim s 2) 2))))
            (dataSpacing s)"

definition posToDataCoords32 :: "'m Ext \<Rightarrow> 'm Impl \<Rightarrow> Vector3 \<Rightarrow> Vector3 option" where
  "posToDataCoords32 E s p =
     (case m4_inverse E (modelMatrix s) of
        None \<Rightarrow> None
      | Some mi \<Rightarrow>
          Some (vadd32 (vscale32 (m4_apply E mi p) (fl32 (1 / zoomFactor s)))
                  (halfExtent32 s)))"

definition dataCoordsToPos32 :: "'m Ext \<Rightarrow> 'm Impl \<Rightarrow> Vector3 \<Rightarrow> Vector3" where
  "dataCoordsToPos32 E s dataCoords =
     m4_apply E (modelMatrix s) (vscale32 (vsub32 dataCoords (halfExtent32 s)) (zoomFactor s))"

text \<open>Equality of two positions within the relative tolerance \<open>10\<^sup>-\<^sup>4\<close>.\<close>

definition withinTolerance :: "Vector3 \<Rightarrow> Vector3 \<Rightarrow> bool" where
  "withinTolerance a b \<longleftrightarrow>
     vlength (vsub a b) \<le> (1 / 10000) * max (vlength a) (vlength b)"

section \<open>Particle engine\<close>

definition resetParticles :: "'m Impl \<Rightarrow> 'm Impl" where
  "resetParticles s =
     s\<lparr>particles :=
         map (\<lambda>p. p\<lparr>pos := Vector3 0 0 0, stallMs := 0, valid := False\<rparr>) (particles s)\<rparr>"

text \<open>
  The loop of \<^verbatim>\<open>releaseParticles\<close> over the pool. \<open>n\<close> is \<^verbatim>\<open>particles.size()\<close>,
  \<open>delay\<close> the running delay and \<open>i\<close> the index of the particle at the head.
\<close>

fun releaseLoop ::
  "Vector3 \<Rightarrow> (nat \<Rightarrow> Vector3) \<Rightarrow> timespec \<Rightarrow> nat \<Rightarrow> int \<Rightarrow> nat \<Rightarrow> Particle list \<Rightarrow> Particle list"
where
  "releaseLoop c jit t n delay i [] = []"
| "releaseLoop c jit t n delay i (p # ps) =
     p\<lparr>pos := vadd c (jit i), lastTime := t, delayMs := delay, stallMs := 0, valid := True\<rparr>
       # releaseLoop c jit t n (delay + int (nat particleReleaseDuration div n)) (Suc i) ps"

definition outsideBounds :: "'m Impl \<Rightarrow> Vector3 \<Rightarrow> bool" where
  "outsideBounds s dataPos \<longleftrightarrow>
     x dataPos < 0 \<or> y dataPos < 0 \<or> z dataPos < 0
     \<or> x dataPos \<ge> real_of_int (dataDim s 0)
     \<or> y dataPos \<ge> real_of_int (dataDim s 1)
     \<or> z dataPos \<ge> real_of_int (dataDim s 2)"

text \<open>
  \<^verbatim>\<open>releaseParticles\<close>. The copy \<^verbatim>\<open>smm\<close> of the stylus matrix is never read and is left
  out. \<open>Inl Exception\<close> is the exception of \<^verbatim>\<open>inverse()\<close> in \<^verbatim>\<open>posToDataCoords\<close>, which
  nothing catches here.
\<close>

definition releaseParticles ::
  "'m Ext \<Rightarrow> (nat \<Rightarrow> Vector3) \<Rightarrow> timespec \<Rightarrow> 'm Impl \<Rightarrow> failure + 'm Impl"
where
  "releaseParticles E jit now s =
     (if seedPoint s = Vector3 (-10000) (-10000) (-10000) then Inr s
      else
        case posToDataCoords E s (seedPoint s) of
          None \<Rightarrow> Inl Exception
        | Some dataPos \<Rightarrow>
            if outsideBounds s dataPos then Inr s
            else
              let coords = Vector3 (real_of_int (truncf (x dataPos)))
                                   (real_of_int (truncf (y dataPos)))
                                   (real_of_int (truncf (z dataPos)))
              in Inr (s\<lparr>particleStartTime := now,
                        particles :=
                          releaseLoop coords jit now (length (particles s)) 0 0 (particles s)\<rparr>))"

text \<open>The test \<^verbatim>\<open>vel.length() > 0.001f\<close>.\<close>

definition isMoving :: "Vector3 \<Rightarrow> bool" where
  "isMoving vel \<longleftrightarrow> vlength vel > 1 / 1000"

text \<open>
  The \<^verbatim>\<open>while\<close> loop of \<^verbatim>\<open>integrateParticleMotion\<close>: one step for each millisecond
  of \<open>elapsedMs\<close>. \<open>vectors\<close> is the vector array of the velocity data.
\<close>

function advect ::
  "(nat \<Rightarrow> int) \<Rightarrow> (int \<Rightarrow> real \<times> real \<times> real) \<Rightarrow> Particle \<Rightarrow> int \<Rightarrow> Particle"
where
  "advect dims vectors p elapsedMs =
     (if elapsedMs > 0 then
        let cx = truncf (x (pos p)); cy = truncf (y (pos p)); cz = truncf (z (pos p))
        in if cx < 0 \<or> cy < 0 \<or> cz < 0 \<or> cx \<ge> dims 0 \<or> cy \<ge> dims 1 \<or> cz \<ge> dims 2
           then p\<lparr>valid := False\<rparr>
           else
             case vectors (cz * (dims 0 * dims 1) + cy * dims 0 + cx) of
               (v0, v1, v2) \<Rightarrow>
                 let vel = Vector3 v1 v0 v2
                 in if isMoving vel
                    then advect dims vectors (p\<lparr>pos := vadd (pos p) (vscale vel particleSpeed)\<rparr>)
                           (elapsedMs - 1)
                    else p\<lparr>stallMs := particleStallDuration\<rparr>
      else p)"
  by pat_completeness auto
termination
  by (relation "measure (\<lambda>(dims, vectors, p, elapsedMs). nat elapsedMs)") auto

declare advect.simps [simp del]

text \<open>
  The conversion of a \<^verbatim>\<open>long\<close> to a 32-bit \<^verbatim>\<open>int\<close>: the value modulo \<open>2\<^sup>3\<^sup>2\<close> in the range
  from \<open>-2\<^sup>3\<^sup>1\<close> to \<open>2\<^sup>3\<^sup>1 - 1\<close>.
\<close>

definition narrowInt :: "int \<Rightarrow> int" where
  "narrowInt v = (v + 2147483648) mod 4294967296 - 2147483648"

text \<open>
  The elapsed time in milliseconds, as \<^verbatim>\<open>integrateParticleMotion\<close> computes it from the
  clock and \<^verbatim>\<open>p.lastTime\<close>: the difference is computed on \<^verbatim>\<open>long\<close> values and stored in
  the \<^verbatim>\<open>int\<close> variable \<^verbatim>\<open>elapsedMs\<close>.
\<close>

definition elapsedSince :: "timespec \<Rightarrow> timespec \<Rightarrow> int" where
  "elapsedSince now prev =
     narrowInt ((tv_sec now - tv_sec prev) * 1000 + cdiv (tv_nsec now - tv_nsec prev) 1000000)"

text \<open>
  \<^verbatim>\<open>integrateParticleMotion\<close> on the particle \<open>p0\<close>. \<open>p1\<close> is the particle after
  \<^verbatim>\<open>p.lastTime = now\<close>, \<open>p2\<close> after the countdown of the delay, \<open>p3\<close> after the countdown
  of the stall. \<open>Inl NullDereference\<close> is the call \<^verbatim>\<open>velocityData->GetPointData()\<close> on a
  null \<^verbatim>\<open>velocityData\<close>.
\<close>

definition integrateParticleMotion ::
  "'m Impl \<Rightarrow> timespec \<Rightarrow> Particle \<Rightarrow> failure + Particle"
where
  "integrateParticleMotion s now p0 =
     (if \<not> valid p0 then Inr p0
      else if \<not> tangibleVisible s then Inr p0
      else
        let elapsed0 = elapsedSince now (lastTime p0);
            p1 = p0\<lparr>lastTime := now\<rparr>;
            p2 = (if delayMs p1 > 0 then p1\<lparr>delayMs := delayMs p1 - elapsed0\<rparr> else p1)
        in if delayMs p1 > 0 \<and> \<not> delayMs p2 < 0 then Inr p2
           else
             let elapsedMs = (if delayMs p1 > 0 then - delayMs p2 else elapsed0)
             in if stallMs p2 > 0 then
                  let p3 = p2\<lparr>stallMs := stallMs p2 - elapsedMs\<rparr>
                  in Inr (if stallMs p3 < 0 then p3\<lparr>valid := False\<rparr> else p3)
                else
                  case velocityData s of
                    None \<Rightarrow> Inl NullDereference
                  | Some vectors \<Rightarrow> Inr (advect (dataDim s) vectors p2 elapsedMs))"

section \<open>Clip planes\<close>

text \<open>
  \<^verbatim>\<open>std::max(dataSpacing.x*dataDim[0], std::max(dataSpacing.y*dataDim[1],
  dataSpacing.z*dataDim[2]))\<close>
\<close>

definition maxExtent :: "'m Impl \<Rightarrow> real" where
  "maxExtent s =
     max (x (dataSpacing s) * real_of_int (dataDim s 0))
         (max (y (dataSpacing s) * real_of_int (dataDim s 1))
              (z (dataSpacing s) * real_of_int (dataDim s 2)))"

text \<open>
  The first \<^verbatim>\<open>switch\<close> of \<^verbatim>\<open>computeAxisClipPlane\<close>: the direction of the locked axis and
  the axis of opposite sign. \<open>None\<close> is the \<^verbatim>\<open>default\<close> case.
\<close>

fun lockedAxisCase :: "ClipAxis \<Rightarrow> (Vector3 \<times> ClipAxis) option" where
  "lockedAxisCase CLIP_AXIS_X = Some (unitX, CLIP_NEG_AXIS_X)"
| "lockedAxisCase CLIP_AXIS_Y = Some (unitY, CLIP_NEG_AXIS_Y)"
| "lockedAxisCase CLIP_AXIS_Z = Some (unitZ, CLIP_NEG_AXIS_Z)"
| "lockedAxisCase CLIP_NEG_AXIS_X = Some (vneg unitX, CLIP_AXIS_X)"
| "lockedAxisCase CLIP_NEG_AXIS_Y = Some (vneg unitY, CLIP_AXIS_Y)"
| "lockedAxisCase CLIP_NEG_AXIS_Z = Some (vneg unitZ, CLIP_AXIS_Z)"
| "lockedAxisCase CLIP_NONE = None"

text \<open>The second \<^verbatim>\<open>switch\<close>: the direction of the chosen axis and the rotation of the slice.\<close>

fun sliceAxisCase :: "ClipAxis \<Rightarrow> (Vector3 \<times> Quaternion) option" where
  "sliceAxisCase CLIP_AXIS_X =
     Some (unitX, QMul (QAxisAngle unitY (- pi / 2)) (QAxisAngle unitZ pi))"
| "sliceAxisCase CLIP_AXIS_Y =
     Some (unitY, QMul (QAxisAngle unitX (pi / 2)) (QAxisAngle unitZ pi))"
| "sliceAxisCase CLIP_AXIS_Z = Some (unitZ, QIdentity)"
| "sliceAxisCase CLIP_NEG_AXIS_X =
     Some (vneg unitX, QMul (QAxisAngle unitY (pi / 2)) (QAxisAngle unitZ pi))"
| "sliceAxisCase CLIP_NEG_AXIS_Y =
     Some (vneg unitY, QMul (QAxisAngle unitX (- pi / 2)) (QAxisAngle unitZ pi))"
| "sliceAxisCase CLIP_NEG_AXIS_Z = Some (vneg unitZ, QAxisAngle unitX pi)"
| "sliceAxisCase CLIP_NONE = None"

text \<open>
  The \<^verbatim>\<open>if\<close> chain that picks the candidate axis from the three dot products: \<open>None\<close>
  when no branch is taken and \<^verbatim>\<open>state->clipAxis\<close> keeps its value.
\<close>

definition candidateAxis :: "real \<Rightarrow> real \<Rightarrow> real \<Rightarrow> real \<Rightarrow> ClipAxis option" where
  "candidateAxis xDot yDot zDot margin =
     (if \<bar>xDot\<bar> > \<bar>yDot\<bar> + margin \<and> \<bar>xDot\<bar> > \<bar>zDot\<bar> + margin
      then Some (if xDot < 0 then CLIP_AXIS_X else CLIP_NEG_AXIS_X)
      else if \<bar>yDot\<bar> > \<bar>xDot\<bar> + margin \<and> \<bar>yDot\<bar> > \<bar>zDot\<bar> + margin
      then Some (if yDot < 0 then CLIP_AXIS_Y else CLIP_NEG_AXIS_Y)
      else if \<bar>zDot\<bar> > \<bar>xDot\<bar> + margin \<and> \<bar>zDot\<bar> > \<bar>yDot\<bar> + margin
      then Some (if zDot < 0 then CLIP_AXIS_Z else CLIP_NEG_AXIS_Z)
      else None)"

text \<open>
  The first part of \<^verbatim>\<open>computeAxisClipPlane\<close>, up to the choice of \<^verbatim>\<open>ca\<close>: the candidate
  axis and the sign of the locked axis. The result is the object as this part leaves it,
  with the failure that ended it, if any.
\<close>

definition updateClipAxes :: "'m Ext \<Rightarrow> 'm Impl \<Rightarrow> 'm Impl \<times> failure option" where
  "updateClipAxes E s =
     (if tangibleVisible s then
        case m4_inverse E (modelMatrix s) of
          None \<Rightarrow> (s, Some Exception)
        | Some mi \<Rightarrow>
            let normalMatrix = m4_transpose E mi;
                xDot = vdot (normalized (m3_apply E normalMatrix unitX)) unitZ;
                yDot = vdot (normalized (m3_apply E normalMatrix unitY)) unitZ;
                zDot = vdot (normalized (m3_apply E normalMatrix unitZ)) unitZ;
                margin = (if clipAxis s \<noteq> CLIP_NONE then 1 / 10 else 0);
                s1 = (case candidateAxis xDot yDot zDot margin of
                        Some a \<Rightarrow> s\<lparr>clipAxis := a\<rparr>
                      | None \<Rightarrow> s)
            in if lockedClipAxis s1 \<noteq> CLIP_NONE then
                 case lockedAxisCase (lockedClipAxis s1) of
                   None \<Rightarrow> (s1, Some AssertionFailed)
                 | Some (axis, neg) \<Rightarrow>
                     let dot = vdot (normalized (m3_apply E normalMatrix axis)) unitZ
                     in if dot > 0 then (s1\<lparr>lockedClipAxis := neg\<rparr>, None) else (s1, None)
               else (s1, None)
      else (s\<lparr>clipAxis := CLIP_NONE, lockedClipAxis := CLIP_NONE\<rparr>, None))"

text \<open>
  \<^verbatim>\<open>computeAxisClipPlane\<close>. The result is the object as the call leaves it, with
  \<open>Inr b\<close> when the call returns \<open>b\<close> and \<open>Inl f\<close> when it ends with the failure \<open>f\<close>.
\<close>

definition computeAxisClipPlane :: "'m Ext \<Rightarrow> 'm Impl \<Rightarrow> 'm Impl \<times> (failure + bool)" where
  "computeAxisClipPlane E s0 =
     (case updateClipAxes E s0 of
        (s, Some f) \<Rightarrow> (s, Inl f)
      | (s, None) \<Rightarrow>
          let ca = (if lockedClipAxis s \<noteq> CLIP_NONE then lockedClipAxis s else clipAxis s)
          in if ca = CLIP_NONE then (s, Inr False)
             else
               (case sliceAxisCase ca of
                 None \<Rightarrow> (s, Inl AssertionFailed)
               | Some (axis, rot) \<Rightarrow>
                   (case (m4_inverse E (modelMatrix s), m4_inverse E (projMatrix s)) of
                      (Some mi, Some pinv) \<Rightarrow>
                        let pt = m4_apply E (m4_mul E mi pinv)
                                   (Vector3 0 0 (getDepthValue s (clipDist s)));
                            absAxis = Vector3 (abs (x axis)) (abs (y axis)) (abs (z axis));
                            pt2 = m4_apply E (modelMatrix s) (vscale absAxis (vdot absAxis pt))
                        in (case posToDataCoords E s pt2 of
                              None \<Rightarrow> (s, Inl Exception)
                            | Some dataCoords \<Rightarrow>
                                let size = (1 / 2) * maxExtent s;
                                    proj = m4_set E (projMatrix s) 0 0
                                             (- m4_get E (projMatrix s) 1 1 / 1)
                                in (case m4_inverse E
                                           (m4_mul E proj
                                              (m4_makeTransform E dataCoords (Some rot) None)) of
                                      None \<Rightarrow> (s, Inl Exception)
                                    | Some minv \<Rightarrow>
                                        let slicingMatrix =
                                              m4_setPosition E (m4_of3x3 E minv) dataCoords;
                                            args = (slicingMatrix,
                                                    - m4_get E proj 1 1 * size * zoomFactor s,
                                                    zoomFactor s);
                                            s1 = s\<lparr>slice := Some args\<rparr>
                                        in (case m4_inverse E (modelMatrix s1) of
                                              None \<Rightarrow> (s1, Inl Exception)
                                            | Some mi2 \<Rightarrow>
                                                let s2 = s1\<lparr>sliceModelMatrix :=
                                                           m4_mul E (modelMatrix s1)
                                                             (m4_makeTransform E
                                                                (m4_apply E mi2 pt2) (Some rot)
                                                                (Some (vscale (Vector3 size size 0)
                                                                         (zoomFactor s1))))\<rparr>;
                                                    s3 = s2\<lparr>lockedClipAxis :=
                                                           (if \<not> slice_isEmpty E args then ca
                                                            else CLIP_NONE)\<rparr>;
                                                    s4 = s3\<lparr>slicePoint := pt2\<rparr>
                                                in (case m4_inverse E (modelMatrix s4) of
                                                      None \<Rightarrow> (s4, Inl Exception)
                                                    | Some mi3 \<Rightarrow>
                                                        (s4\<lparr>sliceNormal :=
                                                             m3_apply E (m4_transpose E mi3) axis\<rparr>,
                                                         Inr True)))))
                    | _ \<Rightarrow> (s, Inl Exception))))"

text \<open>
  The \<^verbatim>\<open>try\<close> block of \<^verbatim>\<open>computeStylusClipPlane\<close>. The result is the object as the block
  leaves it, with \<open>True\<close> when the block ran to its end and \<open>False\<close> when an exception
  left it.
\<close>

definition stylusTryBlock :: "'m Ext \<Rightarrow> 'm Impl \<Rightarrow> 'm Impl \<times> bool" where
  "stylusTryBlock E s =
     (let size = (1 / 2) * (60 + maxExtent s);
          planeMatrix0 = stylusModelMatrix s
      in case m4_inverse E (stylusModelMatrix s) of
           None \<Rightarrow> (s, False)
         | Some smi \<Rightarrow>
             let dataPosInStylusSpace = m4_apply E (m4_mul E smi (modelMatrix s)) vzero;
                 n = unitZ;
                 v = dataPosInStylusSpace;
                 offset = projectOnPlane E v n;
                 planeMatrix = m4_mul E planeMatrix0 (m4_makeTransform E offset None None);
                 proj = m4_set E (projMatrix s) 0 0 (- m4_get E (projMatrix s) 1 1 / 1)
             in (case m4_inverse E planeMatrix of
                   None \<Rightarrow> (s, False)
                 | Some pmi \<Rightarrow>
                     (case m4_inverse E (m4_mul E (m4_mul E proj pmi) (modelMatrix s)) of
                        None \<Rightarrow> (s, False)
                      | Some minv \<Rightarrow>
                          let pt2 = m4_apply E planeMatrix vzero
                          in (case posToDataCoords E s pt2 of
                                None \<Rightarrow> (s, False)
                              | Some dataCoords \<Rightarrow>
                                  let slicingMatrix =
                                        m4_setPosition E (m4_of3x3 E minv) dataCoords;
                                      s1 = s\<lparr>slice :=
                                             Some (slicingMatrix,
                                                   - m4_get E proj 1 1 * size * zoomFactor s,
                                                   zoomFactor s)\<rparr>;
                                      s2 = s1\<lparr>sliceModelMatrix :=
                                             m4_mul E planeMatrix
                                               (m4_makeTransform E vzero (Some QIdentity)
                                                  (Some (vscale (Vector3 size size 0)
                                                           (zoomFactor s1))))\<rparr>;
                                      s3 = s2\<lparr>slicePoint := pt2\<rparr>
                                  in (case m4_inverse E (stylusModelMatrix s3) of
                                        None \<Rightarrow> (s3, False)
                                      | Some smi2 \<Rightarrow>
                                          (s3\<lparr>sliceNormal :=
                                               m3_apply E (m4_transpose E smi2) unitZ\<rparr>,
                                           True))))))"

text \<open>
  \<^verbatim>\<open>computeStylusClipPlane\<close>: the \<^verbatim>\<open>catch\<close> clause turns an exception of the block into
  the result \<^verbatim>\<open>false\<close>, so no failure leaves the function.
\<close>

definition computeStylusClipPlane :: "'m Ext \<Rightarrow> 'm Impl \<Rightarrow> 'm Impl \<times> bool" where
  "computeStylusClipPlane E s =
     (if \<not> stylusVisible s then (s, False)
      else case stylusTryBlock E s of
             (s', True) \<Rightarrow> (s', True)
           | (s', False) \<Rightarrow> (s', False))"

text \<open>The axis of opposite sign, as the first \<^verbatim>\<open>switch\<close> of \<^verbatim>\<open>computeAxisClipPlane\<close> pairs them.\<close>

definition oppositeAxis :: "ClipAxis \<Rightarrow> ClipAxis" where
  "oppositeAxis a =
     (case a of
        CLIP_NONE \<Rightarrow> CLIP_NONE
      | CLIP_AXIS_X \<Rightarrow> CLIP_NEG_AXIS_X
      | CLIP_AXIS_Y \<Rightarrow> CLIP_NEG_AXIS_Y
      | CLIP_AXIS_Z \<Rightarrow> CLIP_NEG_AXIS_Z
      | CLIP_NEG_AXIS_X \<Rightarrow> CLIP_AXIS_X
      | CLIP_NEG_AXIS_Y \<Rightarrow> CLIP_AXIS_Y
      | CLIP_NEG_AXIS_Z \<Rightarrow> CLIP_AXIS_Z)"

section \<open>Inputs of the examples\<close>

text \<open>
  An instance of the matrix operations for the examples: the matrix \<open>m\<close> stands for the
  uniform scaling by \<open>m\<close>, which has an inverse unless \<open>m = 0\<close>. Translations and
  rotations are not represented (\<open>m4_makeTransform\<close> is the identity and
  \<open>m4_setPosition\<close>, \<open>m4_set\<close> change nothing); the slice is never empty.
\<close>

definition scalarExt :: "real Ext" where
  "scalarExt =
     \<lparr>m4_inverse = (\<lambda>m. if m = 0 then None else Some (1 / m)),
      m4_mul = (\<lambda>a b. a * b),
      m4_apply = (\<lambda>m v. vscale v m),
      m4_transpose = (\<lambda>m. m),
      m4_of3x3 = (\<lambda>m. m),
      m3_apply = (\<lambda>m v. vscale v m),
      m4_setPosition = (\<lambda>m v. m),
      m4_makeTransform = (\<lambda>p q sc. 1),
      m4_get = (\<lambda>m i j. if i = j then m else 0),
      m4_set = (\<lambda>m i j v. m),
      projectOnPlane = (\<lambda>v n. vsub v (vscale n (vdot v n / vdot n n))),
      slice_isEmpty = (\<lambda>a. False)\<rparr>"

text \<open>The clock value \<open>t\<close> milliseconds after the epoch.\<close>

definition msec :: "int \<Rightarrow> timespec" where
  "msec t = \<lparr>tv_sec = t div 1000, tv_nsec = (t mod 1000) * 1000000\<rparr>"

definition freshParticle :: Particle where
  "freshParticle =
     \<lparr>pos = Vector3 0 0 0, valid = False, delayMs = 0, stallMs = 0, lastTime = msec 0\<rparr>"

text \<open>
  A dataset of 4 x 4 x 4 voxels of spacing 1 under the identity pose, no velocity data,
  the pool of 200 particles as the constructor leaves it, and the seed point at the
  centre of the data (data coordinates \<open>(2, 2, 2)\<close>).
\<close>

definition demo :: "real Impl" where
  "demo =
     \<lparr>tangibleVisible = True, stylusVisible = True,
      modelMatrix = 1, stylusModelMatrix = 1, sliceModelMatrix = 1,
      clipAxis = CLIP_NONE, lockedClipAxis = CLIP_NONE,
      zoomFactor = 1, clipDist = 0, projMatrix = 1, getDepthValue = (\<lambda>d. d),
      dataDim = (\<lambda>i. 4), dataSpacing = Vector3 1 1 1,
      velocityData = None,
      particles = replicate 200 freshParticle,
      particleStartTime = msec 0,
      slice = None, slicePoint = Vector3 0 0 0, sliceNormal = Vector3 0 0 0,
      seedPoint = Vector3 0 0 0\<rparr>"

definition noJitter :: "nat \<Rightarrow> Vector3" where
  "noJitter i = Vector3 0 0 0"

text \<open>The object after \<^verbatim>\<open>releaseParticles\<close> at time 5 ms, and then with the seed point moved
  out of the data.\<close>

definition released :: "real Impl" where
  "released =
     demo\<lparr>particleStartTime := msec 5,
          particles := releaseLoop (Vector3 2 2 2) noJitter (msec 5) 200 0 0 (particles demo)\<rparr>"

definition releasedOutside :: "real Impl" where
  "releasedOutside = released\<lparr>seedPoint := Vector3 100 0 0\<rparr>"

text \<open>
  The same dataset with velocity data: a field that is zero everywhere, a constant field
  along \<open>+X\<close> and a constant field along \<open>-X\<close> (the code reads the second component of a
  tuple as the \<open>x\<close> component of the velocity).
\<close>

definition demoStill :: "real Impl" where
  "demoStill = demo\<lparr>velocityData := Some (\<lambda>i. (0, 0, 0))\<rparr>"

definition demoFlow :: "real Impl" where
  "demoFlow = demo\<lparr>velocityData := Some (\<lambda>i. (0, 1, 0))\<rparr>"

definition demoBack :: "real Impl" where
  "demoBack = demo\<lparr>velocityData := Some (\<lambda>i. (0, - 1, 0))\<rparr>"

text \<open>
  Particles as a release leaves them at time 5 ms with delay 0: at the centre of the
  data, and in the voxel \<open>(0, 2, 2)\<close> with the jitter \<open>(0.1, 0, 0)\<close>.
\<close>

definition seeded :: Particle where
  "seeded = freshParticle\<lparr>pos := Vector3 2 2 2, valid := True, lastTime := msec 5\<rparr>"

definition driftParticle :: Particle where
  "driftParticle =
     freshParticle\<lparr>pos := Vector3 (1 / 10) 2 2, valid := True, lastTime := msec 5\<rparr>"

text \<open>
  The object with the axis \<open>+Z\<close> locked, and the object with a stylus matrix that has no
  inverse and the slice state of an earlier frame.
\<close>

definition demoLocked :: "real Impl" where
  "demoLocked = demo\<lparr>lockedClipAxis := CLIP_AXIS_Z\<rparr>"

definition demoSingular :: "real Impl" where
  "demoSingular =
     demo\<lparr>stylusModelMatrix := 0, slice := Some (2, 3, 1), sliceModelMatrix := 7\<rparr>"

section \<open>Auxiliary facts\<close>

lemma isMoving_iff [code]: "isMoving v \<longleftrightarrow> vdot v v > 1 / 1000000"
proof -
  have e: "sqrt (1 / 1000000) = 1 / 1000"
    by (rule real_sqrt_unique) (simp_all add: power2_eq_square)
  have "isMoving v \<longleftrightarrow> sqrt (1 / 1000000) < sqrt (vdot v v)"
    by (simp only: isMoving_def vlength_def e)
  then show ?thesis
    by (simp only: real_sqrt_less_iff)
qed

lemma truncf_neg_iff: "truncf r < 0 \<longleftrightarrow> r \<le> - 1"
  unfolding truncf_def by (auto; linarith)

lemma truncf_ge: "real_of_int d \<le> r \<Longrightarrow> d \<le> truncf r"
  unfolding truncf_def by (auto; linarith)

lemma releaseLoop_length: "length (releaseLoop c jit t n d k ps) = length ps"
  by (induction ps arbitrary: d k) simp_all

lemma releaseLoop_nth:
  "i < length ps \<Longrightarrow>
   releaseLoop c jit t n d k ps ! i =
     (ps ! i)\<lparr>pos := vadd c (jit (k + i)), lastTime := t,
               delayMs := d + int i * int (nat particleReleaseDuration div n),
               stallMs := 0, valid := True\<rparr>"
proof (induction ps arbitrary: d k i)
  case Nil
  then show ?case by simp
next
  case (Cons p ps)
  show ?case
  proof (cases i)
    case 0
    then show ?thesis by simp
  next
    case (Suc j)
    with Cons.prems have "j < length ps" by simp
    from Cons.IH [OF this] Suc show ?thesis
      by (simp add: algebra_simps)
  qed
qed

lemma releaseLoop_valid:
  "map valid (releaseLoop c jit t n d k ps) = replicate (length ps) True"
  by (induction ps arbitrary: d k) simp_all

lemma demo_dataPos: "posToDataCoords scalarExt demo (Vector3 0 0 0) = Some (Vector3 2 2 2)"
  by (simp add: posToDataCoords_def scalarExt_def demo_def halfExtent_def cdiv_def
      vadd_def vscale_def vmul_def)

lemma release_demo: "releaseParticles scalarExt noJitter (msec 5) demo = Inr released"
proof -
  have sp: "seedPoint demo = Vector3 0 0 0" by (simp add: demo_def)
  have nb: "\<not> outsideBounds demo (Vector3 2 2 2)"
    by (simp add: outsideBounds_def demo_def)
  have len: "length (particles demo) = 200" by (simp add: demo_def)
  show ?thesis
    unfolding releaseParticles_def released_def
    by (simp add: sp demo_dataPos nb len truncf_def)
qed


lemma released_nth:
  "i < 200 \<Longrightarrow>
   particles released ! i =
     freshParticle\<lparr>pos := Vector3 2 2 2, lastTime := msec 5, delayMs := int i * 3,
                    stallMs := 0, valid := True\<rparr>"
  by (simp add: released_def demo_def releaseLoop_nth noJitter_def vadd_def
      particleReleaseDuration_def)

lemma released_valid: "map valid (particles released) = replicate 200 True"
  by (simp add: released_def demo_def releaseLoop_valid)

lemma releasedOutside_dataPos:
  "posToDataCoords scalarExt releasedOutside (seedPoint releasedOutside) = Some (Vector3 102 2 2)"
  by (simp add: posToDataCoords_def scalarExt_def releasedOutside_def released_def demo_def
      halfExtent_def cdiv_def vadd_def vscale_def vmul_def)

lemma releasedOutside_outside: "outsideBounds releasedOutside (Vector3 102 2 2)"
  by (simp add: outsideBounds_def releasedOutside_def released_def demo_def)

lemmas eval_tick =
  integrateParticleMotion_def Let_def elapsedSince_def narrowInt_def cdiv_def msec_def
  freshParticle_def
  truncf_def isMoving_iff vdot_def vadd_def vscale_def particleSpeed_def
  particleStallDuration_def

text \<open>
  The test of the loop in terms of the position: a step stops the integration and marks
  the particle invalid when a coordinate is at most \<open>-1\<close> or at least the dimension.
\<close>

lemma advect_outside:
  assumes "0 < e"
    and "x (pos p) \<le> - 1 \<or> y (pos p) \<le> - 1 \<or> z (pos p) \<le> - 1
         \<or> real_of_int (dims 0) \<le> x (pos p)
         \<or> real_of_int (dims 1) \<le> y (pos p)
         \<or> real_of_int (dims 2) \<le> z (pos p)"
  shows "advect dims vectors p e = p\<lparr>valid := False\<rparr>"
proof -
  from assms(2)
  have "truncf (x (pos p)) < 0 \<or> truncf (y (pos p)) < 0 \<or> truncf (z (pos p)) < 0
        \<or> dims 0 \<le> truncf (x (pos p)) \<or> dims 1 \<le> truncf (y (pos p))
        \<or> dims 2 \<le> truncf (z (pos p))"
    using truncf_neg_iff truncf_ge by blast
  with assms(1) show ?thesis
    by (subst advect.simps) (simp add: Let_def)
qed

lemma updateClipAxes_locked:
  assumes "lockedClipAxis s \<noteq> CLIP_NONE"
  shows "lockedClipAxis (fst (updateClipAxes E s)) = lockedClipAxis s
         \<or> lockedClipAxis (fst (updateClipAxes E s)) = oppositeAxis (lockedClipAxis s)
         \<or> (lockedClipAxis (fst (updateClipAxes E s)) = CLIP_NONE
             \<and> clipAxis (fst (updateClipAxes E s)) = CLIP_NONE)"
  using assms
  by (cases "lockedClipAxis s")
    (simp_all add: updateClipAxes_def Let_def oppositeAxis_def split: option.splits)

lemma computeAxisClipPlane_locked:
  "lockedClipAxis (fst (computeAxisClipPlane E s)) = CLIP_NONE
   \<or> (lockedClipAxis (fst (updateClipAxes E s)) \<noteq> CLIP_NONE
       \<and> lockedClipAxis (fst (computeAxisClipPlane E s)) = lockedClipAxis (fst (updateClipAxes E s)))
   \<or> (lockedClipAxis (fst (updateClipAxes E s)) = CLIP_NONE
       \<and> lockedClipAxis (fst (computeAxisClipPlane E s)) = clipAxis (fst (updateClipAxes E s)))"
  by (cases "updateClipAxes E s")
    (auto simp add: computeAxisClipPlane_def Let_def split: option.splits sum.splits prod.splits)

lemma oppositeAxis_none: "oppositeAxis a = CLIP_NONE \<longleftrightarrow> a = CLIP_NONE"
  by (cases a) (simp_all add: oppositeAxis_def)

lemma demoLocked_result:
  "lockedClipAxis (fst (computeAxisClipPlane scalarExt demoLocked)) = CLIP_NEG_AXIS_Z"
  by (simp add: computeAxisClipPlane_def updateClipAxes_def Let_def demoLocked_def demo_def
      scalarExt_def posToDataCoords_def candidateAxis_def normalized_def vlength_def
      vdot_def vscale_def unitX_def unitY_def unitZ_def vneg_def)

lemma binexp_numeral:
  "binexp (numeral k) r =
     (if 2 \<le> r then binexp (pred_numeral k) (r / 2) + 1
      else if r < 1 then binexp (pred_numeral k) (2 * r) - 1
      else 0)"
  by (simp add: numeral_eq_Suc)

lemmas eval_fl32 = fl32_def Let_def binexp_numeral pow2_def roundEven_def

lemma vlength_x: "vlength (Vector3 a 0 0) = \<bar>a\<bar>"
  by (simp add: vlength_def vdot_def)

text \<open>A tick while the tangible is hidden changes nothing, not even \<open>lastTime\<close>.\<close>

lemma hidden_tick_unchanged:
  "\<not> tangibleVisible s \<Longrightarrow> integrateParticleMotion s now p = Inr p"
  by (simp add: integrateParticleMotion_def)

text \<open>
  A tick of a stalled particle whose delay has expired subtracts the elapsed time from
  the counter, does not move the particle, and invalidates it exactly when the counter
  falls below 0.
\<close>

lemma stalled_tick:
  assumes "valid p" and "tangibleVisible s" and "delayMs p \<le> 0" and "0 < stallMs p"
  shows "integrateParticleMotion s now p =
           Inr (p\<lparr>lastTime := now,
                  stallMs := stallMs p - elapsedSince now (lastTime p),
                  valid := \<not> stallMs p < elapsedSince now (lastTime p)\<rparr>)"
  using assms by (simp add: integrateParticleMotion_def Let_def)

section \<open>Release and reset of the particle pool\<close>

text \<open>
  C10, as amended. After \<^verbatim>\<open>resetParticles\<close> every particle of the pool has
  \<open>valid = False\<close>, position \<open>(0, 0, 0)\<close> and \<open>stallMs = 0\<close>, whatever the seed point is
  (the function does not read it). \<open>delayMs\<close> and \<open>lastTime\<close> are left as they were.
\<close>

theorem resetParticles_fields:
  "map valid (particles (resetParticles s)) = replicate (length (particles s)) False
   \<and> map pos (particles (resetParticles s)) = replicate (length (particles s)) (Vector3 0 0 0)
   \<and> map stallMs (particles (resetParticles s)) = replicate (length (particles s)) 0
   \<and> map delayMs (particles (resetParticles s)) = map delayMs (particles s)
   \<and> map lastTime (particles (resetParticles s)) = map lastTime (particles s)"
  by (simp add: resetParticles_def o_def map_replicate_const)

text \<open>
  C10 as stated fails: after a release, the particle at index 1 has \<open>delayMs = 3\<close>, and
  \<^verbatim>\<open>resetParticles\<close> does not zero it.
\<close>

theorem resetParticles_keeps_delay:
  "releaseParticles scalarExt noJitter (msec 5) demo = Inr released
   \<and> \<not> (\<forall>p \<in> set (particles (resetParticles released)).
           \<not> valid p \<and> pos p = Vector3 0 0 0 \<and> delayMs p = 0 \<and> stallMs p = 0)"
proof -
  have len: "length (particles released) = 200"
    by (simp add: released_def demo_def releaseLoop_length)
  have "delayMs (particles (resetParticles released) ! 1) = 3"
    by (simp add: resetParticles_def len released_nth)
  moreover have "particles (resetParticles released) ! 1 \<in> set (particles (resetParticles released))"
    by (rule nth_mem) (simp add: resetParticles_def len)
  ultimately have "\<exists>p \<in> set (particles (resetParticles released)). delayMs p \<noteq> 0"
    by (intro bexI [where x = "particles (resetParticles released) ! 1"]) simp_all
  then show ?thesis
    using release_demo by blast
qed

text \<open>
  C6, as amended. A successful release (the seed point is set and its data coordinates
  are inside the bounds) gives the particle at index \<open>i\<close> the delay \<open>i * (D div N)\<close>, where
  \<open>D\<close> is \<open>particleReleaseDuration\<close>, \<open>N\<close> the size of the pool and \<open>div\<close> the integer
  quotient: the first delay is 0, consecutive delays differ by \<open>D div N\<close>, and the delays
  never decrease. For the pool of 200 particles the delays are \<open>0, 3, 6, \<dots>, 597\<close>.
\<close>

theorem release_delays:
  assumes "seedPoint s \<noteq> Vector3 (-10000) (-10000) (-10000)"
    and "posToDataCoords E s (seedPoint s) = Some dataPos"
    and "\<not> outsideBounds s dataPos"
  shows "\<exists>s'. releaseParticles E jit now s = Inr s'
           \<and> length (particles s') = length (particles s)
           \<and> (\<forall>i < length (particles s).
                 delayMs (particles s' ! i) =
                   int i * (particleReleaseDuration div int (length (particles s))))
           \<and> (\<forall>i. Suc i < length (particles s) \<longrightarrow>
                 delayMs (particles s' ! Suc i) - delayMs (particles s' ! i) =
                   particleReleaseDuration div int (length (particles s)))
           \<and> (\<forall>i j. i \<le> j \<and> j < length (particles s) \<longrightarrow>
                 delayMs (particles s' ! i) \<le> delayMs (particles s' ! j))
           \<and> (int (length (particles s)) \<le> particleReleaseDuration \<longrightarrow>
                 (\<forall>i j. i < j \<and> j < length (particles s) \<longrightarrow>
                    delayMs (particles s' ! i) < delayMs (particles s' ! j)))
           \<and> (length (particles s) = 200 \<longrightarrow>
                 (\<forall>i < 200. delayMs (particles s' ! i) = 3 * int i))"
proof -
  let ?n = "length (particles s)"
  let ?q = "particleReleaseDuration div int ?n"
  define c where "c = Vector3 (real_of_int (truncf (x dataPos)))
     (real_of_int (truncf (y dataPos))) (real_of_int (truncf (z dataPos)))"
  define s' where "s' = s\<lparr>particleStartTime := now,
     particles := releaseLoop c jit now ?n 0 0 (particles s)\<rparr>"
  have r: "releaseParticles E jit now s = Inr s'"
    using assms by (simp add: releaseParticles_def s'_def c_def)
  have q: "int (nat particleReleaseDuration div ?n) = ?q"
    by (simp add: particleReleaseDuration_def zdiv_int)
  have q0: "0 \<le> ?q"
    unfolding q [symmetric] by simp
  have d: "delayMs (particles s' ! i) = int i * ?q" if "i < ?n" for i
    using that by (simp add: s'_def releaseLoop_nth q)
  have l: "length (particles s') = ?n"
    by (simp add: s'_def releaseLoop_length)
  have step: "delayMs (particles s' ! Suc i) - delayMs (particles s' ! i) = ?q"
    if "Suc i < ?n" for i
    using that d [of i] d [of "Suc i"] by (simp add: algebra_simps)
  have mono: "delayMs (particles s' ! i) \<le> delayMs (particles s' ! j)"
    if "i \<le> j \<and> j < ?n" for i j
    using that d [of i] d [of j] q0 by (simp add: mult_right_mono)
  have strict: "delayMs (particles s' ! i) < delayMs (particles s' ! j)"
    if "int ?n \<le> particleReleaseDuration" "i < j \<and> j < ?n" for i j
  proof -
    from that have "0 < int ?n" by linarith
    with that(1) have q1: "0 < ?q" by (simp add: pos_imp_zdiv_pos_iff)
    have "int i < int j" using that(2) by simp
    then have "int i * ?q < int j * ?q" using q1 by (rule mult_strict_right_mono)
    with that(2) d [of i] d [of j] show ?thesis by simp
  qed
  have c200: "delayMs (particles s' ! i) = 3 * int i" if "?n = 200" "i < 200" for i
    using that d [of i] by (simp add: particleReleaseDuration_def)
  show ?thesis
    using r l d step mono strict c200 by blast
qed

theorem release_delays_witness:
  "seedPoint demo \<noteq> Vector3 (-10000) (-10000) (-10000)
   \<and> posToDataCoords scalarExt demo (seedPoint demo) = Some (Vector3 2 2 2)
   \<and> \<not> outsideBounds demo (Vector3 2 2 2)
   \<and> (\<exists>s'. releaseParticles scalarExt noJitter (msec 5) demo = Inr s'
          \<and> length (particles s') = 200
          \<and> delayMs (particles s' ! 0) = 0
          \<and> delayMs (particles s' ! 199) = 597)"
proof -
  have h1: "seedPoint demo \<noteq> Vector3 (-10000) (-10000) (-10000)"
    by (simp add: demo_def)
  have h2: "posToDataCoords scalarExt demo (seedPoint demo) = Some (Vector3 2 2 2)"
    using demo_dataPos by (simp add: demo_def)
  have h3: "\<not> outsideBounds demo (Vector3 2 2 2)"
    by (simp add: outsideBounds_def demo_def)
  have len: "length (particles demo) = 200"
    by (simp add: demo_def)
  from release_delays [OF h1 h2 h3, of noJitter "msec 5"] len
  have "\<exists>s'. releaseParticles scalarExt noJitter (msec 5) demo = Inr s'
          \<and> length (particles s') = 200
          \<and> delayMs (particles s' ! 0) = 0
          \<and> delayMs (particles s' ! 199) = 597"
    by fastforce
  with h1 h2 h3 show ?thesis by blast
qed

text \<open>
  C6 as stated fails: the delay of the particle at index 1 is 3, not \<open>D / N = 3.5\<close>, and
  the delay at index 2 is 6, not the integer quotient of \<open>2 * D\<close> by \<open>N\<close>, which is 7.
\<close>

theorem release_delays_not_exact_quotient:
  "releaseParticles scalarExt noJitter (msec 5) demo = Inr released
   \<and> length (particles released) = 200
   \<and> real_of_int (delayMs (particles released ! 1))
       \<noteq> 1 * real_of_int particleReleaseDuration / 200
   \<and> delayMs (particles released ! 2) \<noteq> cdiv (2 * particleReleaseDuration) 200"
proof -
  have len: "length (particles released) = 200"
    by (simp add: released_def demo_def releaseLoop_length)
  have d1: "delayMs (particles released ! 1) = 3"
    by (simp add: released_nth)
  have d2: "delayMs (particles released ! 2) = 6"
    by (simp add: released_nth)
  show ?thesis
    using release_demo len d1 d2 by (simp add: particleReleaseDuration_def cdiv_def)
qed

text \<open>
  C5, as amended. When the data coordinates of the seed point lie outside \<open>[0, dim)\<close> on
  some axis, \<^verbatim>\<open>releaseParticles\<close> returns with the object unchanged: every particle keeps
  the \<open>valid\<close> flag it had, so the pool is all invalid afterwards exactly when it was
  before.
\<close>

theorem release_outside_bounds_noop:
  assumes "posToDataCoords E s (seedPoint s) = Some dataPos"
    and "outsideBounds s dataPos"
  shows "releaseParticles E jit now s = Inr s"
  using assms by (simp add: releaseParticles_def)

theorem release_outside_bounds_noop_witness:
  "posToDataCoords scalarExt releasedOutside (seedPoint releasedOutside) = Some (Vector3 102 2 2)
   \<and> outsideBounds releasedOutside (Vector3 102 2 2)
   \<and> releaseParticles scalarExt noJitter (msec 9) releasedOutside = Inr releasedOutside"
  using release_outside_bounds_noop [OF releasedOutside_dataPos releasedOutside_outside]
    releasedOutside_dataPos releasedOutside_outside
  by simp

text \<open>
  C5 as stated fails: a rejected release after a successful one leaves all 200 particles
  valid.
\<close>

theorem release_outside_bounds_keeps_valid:
  "posToDataCoords scalarExt releasedOutside (seedPoint releasedOutside) = Some (Vector3 102 2 2)
   \<and> outsideBounds releasedOutside (Vector3 102 2 2)
   \<and> (\<exists>s'. releaseParticles scalarExt noJitter (msec 9) releasedOutside = Inr s'
          \<and> map valid (particles s') = replicate 200 True)"
proof -
  have "releaseParticles scalarExt noJitter (msec 9) releasedOutside = Inr releasedOutside"
    using releasedOutside_dataPos releasedOutside_outside by (simp add: releaseParticles_def)
  moreover have "map valid (particles releasedOutside) = replicate 200 True"
    using released_valid by (simp add: releasedOutside_def)
  ultimately show ?thesis
    using releasedOutside_dataPos releasedOutside_outside by blast
qed


section \<open>Ticks of a particle\<close>

text \<open>
  C1: without velocity data, \<^verbatim>\<open>releaseParticles\<close> and the tick of a particle should do
  nothing, leave every particle invalid and not crash. The code does otherwise:
  \<^verbatim>\<open>releaseParticles\<close> does not test \<^verbatim>\<open>velocityData\<close> (the test is commented out), so with
  a seed point inside the data it makes all 200 particles valid, and the next tick of
  the first of them dereferences the null pointer.
\<close>

theorem tick_after_release_without_velocity_data:
  "velocityData demo = None
   \<and> releaseParticles scalarExt noJitter (msec 5) demo = Inr released
   \<and> map valid (particles released) = replicate 200 True
   \<and> integrateParticleMotion released (msec 21) (particles released ! 0) = Inl NullDereference"
proof -
  have v: "velocityData released = None" "tangibleVisible released"
    by (simp_all add: released_def demo_def)
  have t: "integrateParticleMotion released (msec 21) (particles released ! 0) = Inl NullDereference"
    by (simp add: released_nth v eval_tick)
  show ?thesis
    using release_demo released_valid t by (simp add: demo_def)
qed

text \<open>
  C2: a stalled particle should become invalid once the stall duration has elapsed, and
  never resume. The code does otherwise when the counter reaches exactly 0: a particle
  that stalls at 21 ms and is ticked 1000 ms later has \<open>stallMs = 0\<close> and stays valid; the
  next tick integrates it again, and in the zero field it stalls anew with the full
  duration.
\<close>

theorem stall_restarts_at_zero:
  "integrateParticleMotion demoStill (msec 21) seeded
     = Inr (seeded\<lparr>lastTime := msec 21, stallMs := particleStallDuration\<rparr>)
   \<and> integrateParticleMotion demoStill (msec 1021)
       (seeded\<lparr>lastTime := msec 21, stallMs := particleStallDuration\<rparr>)
     = Inr (seeded\<lparr>lastTime := msec 1021, stallMs := 0\<rparr>)
   \<and> integrateParticleMotion demoStill (msec 1031) (seeded\<lparr>lastTime := msec 1021, stallMs := 0\<rparr>)
     = Inr (seeded\<lparr>lastTime := msec 1031, stallMs := particleStallDuration\<rparr>)
   \<and> valid (seeded\<lparr>lastTime := msec 1031, stallMs := particleStallDuration\<rparr>)"
  by (simp add: demoStill_def demo_def seeded_def eval_tick advect.simps)

text \<open>
  C3: the time during which the tangible is hidden should not count as elapsed time of
  a particle. The code does otherwise: a hidden tick leaves \<open>lastTime\<close> as it was, so the
  first visible tick integrates the whole hidden interval. A particle last updated at
  5 ms, ticked hidden at 8 ms and visible at 9 ms, advances by four steps; a visible tick
  1 ms after the last update advances it by one.
\<close>

theorem hidden_interval_is_integrated:
  "integrateParticleMotion (demoFlow\<lparr>tangibleVisible := False\<rparr>) (msec 8) seeded = Inr seeded
   \<and> integrateParticleMotion demoFlow (msec 9) seeded
     = Inr (seeded\<lparr>lastTime := msec 9, pos := Vector3 (13 / 5) 2 2\<rparr>)
   \<and> integrateParticleMotion demoFlow (msec 6) seeded
     = Inr (seeded\<lparr>lastTime := msec 6, pos := Vector3 (43 / 20) 2 2\<rparr>)"
  by (simp add: demoFlow_def demo_def seeded_def eval_tick advect.simps)

text \<open>
  C4: during the integration a particle whose position has left \<open>[0, dim)\<close> on some
  axis should be marked invalid and stop. The code does otherwise for a coordinate
  between \<open>-1\<close> and 0: the test is made on the position converted to integers, which
  drops the fractional part, so such a coordinate counts as the voxel 0. A particle at
  \<open>x = 0.1\<close> in a flow along \<open>-X\<close> leaves the data at the first step of a tick of 3 ms and
  is moved twice more; it ends at \<open>x = -0.35\<close>, a position that the test of
  \<^verbatim>\<open>releaseParticles\<close> rejects, stays valid, and is moved again by the next tick.
\<close>

theorem negative_position_stays_valid:
  "integrateParticleMotion demoBack (msec 8) driftParticle
     = Inr (driftParticle\<lparr>lastTime := msec 8, pos := Vector3 (- 7 / 20) 2 2\<rparr>)
   \<and> outsideBounds demoBack (Vector3 (- 7 / 20) 2 2)
   \<and> integrateParticleMotion demoBack (msec 10)
       (driftParticle\<lparr>lastTime := msec 8, pos := Vector3 (- 7 / 20) 2 2\<rparr>)
     = Inr (driftParticle\<lparr>lastTime := msec 10, pos := Vector3 (- 13 / 20) 2 2\<rparr>)
   \<and> valid (driftParticle\<lparr>lastTime := msec 10, pos := Vector3 (- 13 / 20) 2 2\<rparr>)"
  by (simp add: demoBack_def demo_def driftParticle_def outsideBounds_def eval_tick advect.simps)

section \<open>Properties of the clip planes\<close>

text \<open>
  C7. A call of \<^verbatim>\<open>computeAxisClipPlane\<close> that starts with a locked axis leaves the locked
  axis the same, of opposite sign, or \<open>CLIP_NONE\<close>, whether the call returns or ends with
  an exception: the lock never moves to another axis without passing through
  \<open>CLIP_NONE\<close>.
\<close>

theorem locked_axis_keeps_identity:
  assumes "lockedClipAxis s \<noteq> CLIP_NONE"
  shows "lockedClipAxis (fst (computeAxisClipPlane E s)) = lockedClipAxis s
         \<or> lockedClipAxis (fst (computeAxisClipPlane E s)) = oppositeAxis (lockedClipAxis s)
         \<or> lockedClipAxis (fst (computeAxisClipPlane E s)) = CLIP_NONE"
proof -
  let ?u = "fst (updateClipAxes E s)"
  let ?r = "lockedClipAxis (fst (computeAxisClipPlane E s))"
  have r: "?r = CLIP_NONE
           \<or> (lockedClipAxis ?u \<noteq> CLIP_NONE \<and> ?r = lockedClipAxis ?u)
           \<or> (lockedClipAxis ?u = CLIP_NONE \<and> ?r = clipAxis ?u)"
    by (rule computeAxisClipPlane_locked)
  consider (same) "lockedClipAxis ?u = lockedClipAxis s"
    | (flipped) "lockedClipAxis ?u = oppositeAxis (lockedClipAxis s)"
    | (cleared) "lockedClipAxis ?u = CLIP_NONE" "clipAxis ?u = CLIP_NONE"
    using updateClipAxes_locked [OF assms, of E] by blast
  then show ?thesis
  proof cases
    case same
    with r assms show ?thesis by auto
  next
    case flipped
    with r assms show ?thesis by (auto simp add: oppositeAxis_none)
  next
    case cleared
    with r show ?thesis by auto
  qed
qed

theorem locked_axis_keeps_identity_witness:
  "lockedClipAxis demoLocked \<noteq> CLIP_NONE
   \<and> lockedClipAxis (fst (computeAxisClipPlane scalarExt demoLocked))
       = oppositeAxis (lockedClipAxis demoLocked)"
proof -
  have h: "lockedClipAxis demoLocked \<noteq> CLIP_NONE"
    by (simp add: demoLocked_def)
  have l: "lockedClipAxis demoLocked = CLIP_AXIS_Z"
    by (simp add: demoLocked_def)
  from locked_axis_keeps_identity [OF h, of scalarExt] demoLocked_result h
  show ?thesis
    by (simp add: l oppositeAxis_def)
qed

text \<open>
  C8. When the stylus matrix has no inverse (\<^verbatim>\<open>inverse()\<close> throws),
  \<^verbatim>\<open>computeStylusClipPlane\<close> returns \<^verbatim>\<open>false\<close> and leaves the object unchanged, in
  particular the slice and \<open>sliceModelMatrix\<close>; no failure leaves the function.
\<close>

theorem singular_stylus_no_plane:
  assumes "m4_inverse E (stylusModelMatrix s) = None"
  shows "computeStylusClipPlane E s = (s, False)"
  using assms by (simp add: computeStylusClipPlane_def stylusTryBlock_def Let_def)

theorem singular_stylus_no_plane_witness:
  "m4_inverse scalarExt (stylusModelMatrix demoSingular) = None
   \<and> computeStylusClipPlane scalarExt demoSingular = (demoSingular, False)
   \<and> slice demoSingular = Some (2, 3, 1)
   \<and> sliceModelMatrix demoSingular = 7"
proof -
  have h: "m4_inverse scalarExt (stylusModelMatrix demoSingular) = None"
    by (simp add: scalarExt_def demoSingular_def)
  from singular_stylus_no_plane [OF h] h show ?thesis
    by (simp add: demoSingular_def)
qed

section \<open>Round trip of the coordinate transforms\<close>

text \<open>
  C9, as amended. In exact arithmetic \<^verbatim>\<open>dataCoordsToPos\<close> undoes \<^verbatim>\<open>posToDataCoords\<close>
  at every position, for a model matrix whose \<^verbatim>\<open>inverse()\<close> undoes it and a zoom factor
  other than 0: the round trip returns the position itself.
\<close>

theorem roundtrip_exact:
  assumes "m4_inverse E (modelMatrix s) = Some mi"
    and "\<forall>v. m4_apply E (modelMatrix s) (m4_apply E mi v) = v"
    and "zoomFactor s \<noteq> 0"
  shows "\<exists>d. posToDataCoords E s p = Some d \<and> dataCoordsToPos E s d = p"
proof -
  let ?d = "vadd (vscale (m4_apply E mi p) (1 / zoomFactor s)) (halfExtent s)"
  have d: "posToDataCoords E s p = Some ?d"
    using assms(1) by (simp add: posToDataCoords_def)
  have "vscale (vsub ?d (halfExtent s)) (zoomFactor s) = m4_apply E mi p"
    using assms(3) by (cases "m4_apply E mi p") (simp add: vadd_def vsub_def vscale_def)
  then have "dataCoordsToPos E s ?d = p"
    using assms(2) by (simp add: dataCoordsToPos_def)
  with d show ?thesis by blast
qed

theorem roundtrip_exact_witness:
  "m4_inverse scalarExt (modelMatrix demo) = Some 1
   \<and> (\<forall>v. m4_apply scalarExt (modelMatrix demo) (m4_apply scalarExt 1 v) = v)
   \<and> zoomFactor demo \<noteq> 0
   \<and> (\<exists>d. posToDataCoords scalarExt demo (Vector3 (1 / 16777216) 0 0) = Some d
          \<and> dataCoordsToPos scalarExt demo d = Vector3 (1 / 16777216) 0 0)"
proof -
  have h1: "m4_inverse scalarExt (modelMatrix demo) = Some 1"
    by (simp add: scalarExt_def demo_def)
  have h2: "\<forall>v. m4_apply scalarExt (modelMatrix demo) (m4_apply scalarExt 1 v) = v"
    by (simp add: scalarExt_def demo_def vscale_def)
  have h3: "zoomFactor demo \<noteq> 0"
    by (simp add: demo_def)
  from roundtrip_exact [OF h1 h2 h3, of "Vector3 (1 / 16777216) 0 0"] h1 h2 h3
  show ?thesis by blast
qed

text \<open>
  C9 as stated fails in single precision. Under the identity pose with zoom 1 and the
  half extent \<open>(2, 2, 2)\<close>, the position \<open>(2\<^sup>-\<^sup>2\<^sup>4, 0, 0)\<close>, which is a \<^verbatim>\<open>float\<close>, is taken
  to the data coordinates \<open>(2, 2, 2)\<close>, because \<open>2 + 2\<^sup>-\<^sup>2\<^sup>4\<close> rounds to 2, and back to
  \<open>(0, 0, 0)\<close>: the error is the whole of the position, not one part in \<open>10\<^sup>4\<close>.
\<close>

theorem roundtrip_single_precision_fails:
  "fl32 (1 / 16777216) = 1 / 16777216
   \<and> posToDataCoords32 scalarExt demo (Vector3 (1 / 16777216) 0 0) = Some (Vector3 2 2 2)
   \<and> dataCoordsToPos32 scalarExt demo (Vector3 2 2 2) = Vector3 0 0 0
   \<and> \<not> withinTolerance (Vector3 0 0 0) (Vector3 (1 / 16777216) 0 0)"
proof -
  have f: "fl32 (1 / 16777216) = 1 / 16777216"
    by (simp add: eval_fl32)
  have h: "halfExtent32 demo = Vector3 2 2 2"
    by (simp add: halfExtent32_def vmul32_def demo_def cdiv_def eval_fl32)
  have m: "modelMatrix demo = 1" "zoomFactor demo = 1"
    by (simp_all add: demo_def)
  have a: "posToDataCoords32 scalarExt demo (Vector3 (1 / 16777216) 0 0) = Some (Vector3 2 2 2)"
    by (simp add: posToDataCoords32_def h m vadd32_def vscale32_def vscale_def scalarExt_def
        eval_fl32)
  have b: "dataCoordsToPos32 scalarExt demo (Vector3 2 2 2) = Vector3 0 0 0"
    by (simp add: dataCoordsToPos32_def h m vsub32_def vscale32_def vscale_def scalarExt_def
        eval_fl32)
  have c: "\<not> withinTolerance (Vector3 0 0 0) (Vector3 (1 / 16777216) 0 0)"
    by (simp add: withinTolerance_def vsub_def vlength_x)
  from f a b c show ?thesis by simp
qed

end
